theory Spec2Isabelle
  imports Main
begin

section \<open>Data model\<close>

text \<open>
  The two mapped classes of \<^verbatim>\<open>app/models\<close>. A calendar date is its proleptic ordinal,
  a timestamp the number of clock ticks since some epoch. Nullable columns are options;
  the columns declared \<^verbatim>\<open>nullable=False\<close> are plain values.
\<close>

type_synonym date = int
type_synonym datetime = nat

record employee =
  e_id :: int
  first_name :: string
  last_name :: string
  email :: string
  phone :: "string option"
  department :: "string option"
  position :: "string option"
  hire_date :: "date option"
  e_created_at :: datetime
  e_updated_at :: datetime

record task =
  t_id :: int
  title :: string
  description :: "string option"
  status :: string
  priority :: string
  employee_id :: "int option"
  deadline :: "date option"
  t_created_at :: datetime
  t_updated_at :: datetime

text \<open>
  The persistent state: the rows of the two tables in insertion order, and whether the
  database engine enforces the foreign key of \<^verbatim>\<open>tasks.employee_id\<close> (PostgreSQL does;
  SQLite, the engine of the development and testing configurations, does not unless a
  pragma is issued, and the application issues none).
\<close>

record store =
  employees :: "employee list"
  tasks :: "task list"
  fk_enforced :: bool

text \<open>
  The outcomes the services report as \<^verbatim>\<open>(None, message)\<close>:
  \<^verbatim>\<open>'Employee not found'\<close>, \<^verbatim>\<open>'Task not found'\<close>, \<^verbatim>\<open>'Email already exists'\<close>,
  \<^verbatim>\<open>'Database integrity error: Email must be unique'\<close>,
  \<^verbatim>\<open>'Employee with ID {id} not found'\<close> and the generic \<^verbatim>\<open>'Error ...: {exception}'\<close>.
\<close>

datatype error =
    EmployeeNotFound
  | TaskNotFound
  | EmailExists
  | IntegrityError
  | RefEmployeeNotFound int
  | Unexpected

text \<open>
  The dictionaries the services receive are the output of the marshmallow schemas, so
  their keys are among the schema's fields. A field is \<open>None\<close> when its key is absent
  and \<open>Some v\<close> when it is present with value \<open>v\<close>; for the fields declared
  \<^verbatim>\<open>allow_none=True\<close> the value is itself optional (JSON null).
\<close>

record employee_fields =
  f_first_name :: "string option"
  f_last_name :: "string option"
  f_email :: "string option"
  f_phone :: "string option option"
  f_department :: "string option option"
  f_position :: "string option option"
  f_hire_date :: "date option option"

record task_fields =
  f_title :: "string option"
  f_description :: "string option option"
  f_status :: "string option"
  f_priority :: "string option"
  f_employee_id :: "int option option"
  f_deadline :: "date option option"

definition dict_get :: "'a option option \<Rightarrow> 'a option" where
  \<comment> \<open>\<^verbatim>\<open>data.get(key)\<close>: \<open>None\<close> for an absent key, else the stored value.\<close>
  "dict_get v = (case v of None \<Rightarrow> None | Some x \<Rightarrow> x)"

definition no_employee_fields :: employee_fields where
  "no_employee_fields =
     \<lparr>f_first_name = None, f_last_name = None, f_email = None, f_phone = None,
      f_department = None, f_position = None, f_hire_date = None\<rparr>"

definition no_task_fields :: task_fields where
  "no_task_fields =
     \<lparr>f_title = None, f_description = None, f_status = None, f_priority = None,
      f_employee_id = None, f_deadline = None\<rparr>"

section \<open>The persistence layer\<close>

text \<open>
  What the services use of SQLAlchemy over SQLite, the engine of the default, development
  and testing configurations, as functions on the store: the row that a lookup by
  primary key selects, the first row with a given email, and the identity of a new row
  (the largest identity so far plus one, SQLite's rule for an integer primary key).
\<close>

definition session_get_employee :: "int \<Rightarrow> store \<Rightarrow> employee option" where
  \<comment> \<open>\<^verbatim>\<open>db.session.get(Employee, i)\<close> for an identity SQLite can hold; for any other
      the driver raises, which \<open>lookup_failure\<close> below accounts for.\<close>
  "session_get_employee i s = find (\<lambda>e. e_id e = i) (employees s)"

definition session_get_task :: "int \<Rightarrow> store \<Rightarrow> task option" where
  \<comment> \<open>\<^verbatim>\<open>db.session.get(Task, i)\<close>, likewise.\<close>
  "session_get_task i s = find (\<lambda>t. t_id t = i) (tasks s)"

definition filter_by_email_first :: "string option \<Rightarrow> store \<Rightarrow> employee option" where
  \<comment> \<open>\<^verbatim>\<open>Employee.query.filter_by(email=v).first()\<close>; a null never equals a stored email.\<close>
  "filter_by_email_first v s =
     (case v of None \<Rightarrow> None | Some em \<Rightarrow> find (\<lambda>e. email e = em) (employees s))"

definition sqlite_int :: "int \<Rightarrow> bool" where
  \<comment> \<open>The integers SQLite stores and its driver binds as parameters: 64 bits, signed.
      For any other integer the driver raises \<^verbatim>\<open>OverflowError\<close>.\<close>
  "sqlite_int k = (- (2 ^ 63) \<le> k \<and> k < 2 ^ 63)"

definition lookup_failure :: "int \<Rightarrow> error \<Rightarrow> error" where
  \<comment> \<open>What a service reports when a lookup by identity inside its \<^verbatim>\<open>try\<close> finds no
      row: its own not-found outcome for an identity the driver can bind, and the generic
      outcome of its handler for one that makes the driver raise. No stored row has such
      an identity.\<close>
  "lookup_failure i not_found = (if sqlite_int i then not_found else Unexpected)"

definition next_id :: "int list \<Rightarrow> int" where
  "next_id ids = fold max ids 0 + 1"

definition email_in_use :: "string \<Rightarrow> int \<Rightarrow> store \<Rightarrow> bool" where
  \<comment> \<open>The unique index on \<^verbatim>\<open>employees.email\<close>: a row other than \<open>i\<close> holds the email.\<close>
  "email_in_use em i s = list_ex (\<lambda>e. email e = em \<and> e_id e \<noteq> i) (employees s)"

definition fk_violation :: "int option \<Rightarrow> store \<Rightarrow> bool" where
  \<comment> \<open>The foreign key of \<^verbatim>\<open>tasks.employee_id\<close>, where the engine enforces it.\<close>
  "fk_violation r s =
     (case r of None \<Rightarrow> False
      | Some k \<Rightarrow> fk_enforced s \<and> session_get_employee k s = None)"

section \<open>Pagination parameters of the list routes\<close>

definition get_employees_args :: "int \<Rightarrow> int \<Rightarrow> int \<times> int" where
  \<comment> \<open>\<^verbatim>\<open>get_employees\<close>: the \<open>(page, per_page)\<close> handed to the service.\<close>
  "get_employees_args page per_page =
     (let page = (if page < 1 then 1 else page);
          per_page = (if per_page < 1 \<or> per_page > 100 then 10 else per_page)
      in (page, per_page))"

definition get_tasks_args :: "int \<Rightarrow> int \<Rightarrow> int \<times> int" where
  \<comment> \<open>\<^verbatim>\<open>get_tasks\<close>: the same two checks.\<close>
  "get_tasks_args page per_page =
     (let page = (if page < 1 then 1 else page);
          per_page = (if per_page < 1 \<or> per_page > 100 then 10 else per_page)
      in (page, per_page))"

definition spec_clamp_args :: "int \<Rightarrow> int \<Rightarrow> int \<times> int" where
  \<comment> \<open>The specification's wording: clamp into \<open>page \<ge> 1\<close> and \<open>1 \<le> pageSize \<le> 100\<close>.\<close>
  "spec_clamp_args page per_page = (max 1 page, min 100 (max 1 per_page))"

section \<open>Employee service\<close>

definition get_employee_by_id :: "int \<Rightarrow> store \<Rightarrow> employee option" where
  "get_employee_by_id emp_id s = session_get_employee emp_id s"

definition create_employee ::
  "datetime \<Rightarrow> employee_fields \<Rightarrow> store \<Rightarrow> (error + employee) \<times> store" where
  \<comment> \<open>The commit raises \<^verbatim>\<open>IntegrityError\<close> for a null in a \<^verbatim>\<open>nullable=False\<close>
      column and for a duplicate email; the handler rolls back.\<close>
  "create_employee now data s =
     (case filter_by_email_first (f_email data) s of
        Some existing \<Rightarrow> (Inl EmailExists, s)
      | None \<Rightarrow>
          (case f_first_name data of
             None \<Rightarrow> (Inl IntegrityError, s)
           | Some fn \<Rightarrow>
          (case f_last_name data of
             None \<Rightarrow> (Inl IntegrityError, s)
           | Some ln \<Rightarrow>
          (case f_email data of
             None \<Rightarrow> (Inl IntegrityError, s)
           | Some em \<Rightarrow>
               (let new_employee =
                      \<lparr>e_id = next_id (map e_id (employees s)),
                       first_name = fn, last_name = ln, email = em,
                       phone = dict_get (f_phone data),
                       department = dict_get (f_department data),
                       position = dict_get (f_position data),
                       hire_date = dict_get (f_hire_date data),
                       e_created_at = now, e_updated_at = now\<rparr>
                in if email_in_use em (e_id new_employee) s then (Inl IntegrityError, s)
                   else (Inr new_employee,
                         s\<lparr>employees := employees s @ [new_employee]\<rparr>))))))"

definition setattr_employee :: "employee_fields \<Rightarrow> employee \<Rightarrow> employee" where
  \<comment> \<open>The loop \<^verbatim>\<open>for key, value in data.items(): setattr(employee, key, value)\<close>;
      every key of the update schema is an attribute, so \<^verbatim>\<open>hasattr\<close> holds.\<close>
  "setattr_employee data e =
     e\<lparr>first_name := (case f_first_name data of None \<Rightarrow> first_name e | Some v \<Rightarrow> v),
       last_name := (case f_last_name data of None \<Rightarrow> last_name e | Some v \<Rightarrow> v),
       email := (case f_email data of None \<Rightarrow> email e | Some v \<Rightarrow> v),
       phone := (case f_phone data of None \<Rightarrow> phone e | Some v \<Rightarrow> v),
       department := (case f_department data of None \<Rightarrow> department e | Some v \<Rightarrow> v),
       position := (case f_position data of None \<Rightarrow> position e | Some v \<Rightarrow> v),
       hire_date := (case f_hire_date data of None \<Rightarrow> hire_date e | Some v \<Rightarrow> v)\<rparr>"

definition commit_employee ::
  "datetime \<Rightarrow> employee \<Rightarrow> employee \<Rightarrow> store \<Rightarrow> error + employee \<times> store" where
  \<comment> \<open>Flushing a modified row: no statement is sent when no column changed; otherwise
      the unique index is checked for a changed email and \<^verbatim>\<open>onupdate\<close> stamps
      \<^verbatim>\<open>updated_at\<close>.\<close>
  "commit_employee now old new s =
     (if new = old then Inr (old, s)
      else if email new \<noteq> email old \<and> email_in_use (email new) (e_id old) s
        then Inl IntegrityError
      else (let stamped = new\<lparr>e_updated_at := now\<rparr>
            in Inr (stamped,
                    s\<lparr>employees :=
                        map (\<lambda>e. if e_id e = e_id old then stamped else e) (employees s)\<rparr>)))"

definition update_employee ::
  "datetime \<Rightarrow> int \<Rightarrow> employee_fields \<Rightarrow> store \<Rightarrow> (error + employee) \<times> store" where
  "update_employee now emp_id data s =
     (case session_get_employee emp_id s of
        None \<Rightarrow> (Inl (lookup_failure emp_id EmployeeNotFound), s)
      | Some employee \<Rightarrow>
          if (case f_email data of
                None \<Rightarrow> False
              | Some em \<Rightarrow> em \<noteq> email employee
                           \<and> filter_by_email_first (Some em) s \<noteq> None)
          then (Inl EmailExists, s)
          else (case commit_employee now employee (setattr_employee data employee) s of
                  Inl err \<Rightarrow> (Inl err, s)
                | Inr (updated, s') \<Rightarrow> (Inr updated, s')))"

definition delete_employee :: "int \<Rightarrow> store \<Rightarrow> (error + unit) \<times> store" where
  \<comment> \<open>\<^verbatim>\<open>db.session.delete(employee)\<close>: the relationship \<^verbatim>\<open>Employee.tasks\<close> is declared
      with \<^verbatim>\<open>cascade='all, delete-orphan'\<close>, so the unit of work loads the employee's
      tasks and deletes each by primary key before it deletes the employee's row.\<close>
  "delete_employee emp_id s =
     (case session_get_employee emp_id s of
        None \<Rightarrow> (Inl (lookup_failure emp_id EmployeeNotFound), s)
      | Some employee \<Rightarrow>
          (let owned = filter (\<lambda>t. employee_id t = Some (e_id employee)) (tasks s)
           in (Inr (),
               s\<lparr>tasks := filter (\<lambda>t. t_id t \<notin> set (map t_id owned)) (tasks s),
                 employees := filter (\<lambda>e. e_id e \<noteq> e_id employee) (employees s)\<rparr>)))"

definition get_employee_tasks :: "int \<Rightarrow> store \<Rightarrow> error + task list" where
  "get_employee_tasks emp_id s =
     (case session_get_employee emp_id s of
        None \<Rightarrow> Inl (lookup_failure emp_id EmployeeNotFound)
      | Some employee \<Rightarrow>
          Inr (filter (\<lambda>t. employee_id t = Some (e_id employee)) (tasks s)))"

section \<open>Task service\<close>

definition get_task_by_id :: "int \<Rightarrow> store \<Rightarrow> task option" where
  "get_task_by_id task_id s = session_get_task task_id s"

definition truthy_id :: "int option \<Rightarrow> bool" where
  \<comment> \<open>Python's truth value of an optional integer: \<^verbatim>\<open>None\<close> and \<^verbatim>\<open>0\<close> are false.\<close>
  "truthy_id v = (case v of None \<Rightarrow> False | Some k \<Rightarrow> k \<noteq> 0)"

definition truthy_str :: "string option \<Rightarrow> bool" where
  \<comment> \<open>Python's truth value of an optional string: \<^verbatim>\<open>None\<close> and \<^verbatim>\<open>''\<close> are false.\<close>
  "truthy_str v = (case v of None \<Rightarrow> False | Some x \<Rightarrow> x \<noteq> [])"

definition missing_employee :: "int option \<Rightarrow> store \<Rightarrow> error option" where
  \<comment> \<open>The guard \<^verbatim>\<open>if employee_id:\<close> followed by the lookup and \<^verbatim>\<open>if not employee:\<close>:
      the failure for an identity that is truthy and names no employee, if there is
      one.\<close>
  "missing_employee v s =
     (case v of
        None \<Rightarrow> None
      | Some k \<Rightarrow> if truthy_id (Some k) \<and> session_get_employee k s = None
                  then Some (lookup_failure k (RefEmployeeNotFound k)) else None)"

definition create_task ::
  "datetime \<Rightarrow> task_fields \<Rightarrow> store \<Rightarrow> (error + task) \<times> store" where
  \<comment> \<open>Every exception of the commit (a null title, a foreign key the engine rejects)
      reaches the single handler, which rolls back and reports a generic error.\<close>
  "create_task now data s =
     (case missing_employee (dict_get (f_employee_id data)) s of
        Some err \<Rightarrow> (Inl err, s)
      | None \<Rightarrow>
             (case f_title data of
                 None \<Rightarrow> (Inl Unexpected, s)
               | Some ttl \<Rightarrow>
                   (let new_task =
                          \<lparr>t_id = next_id (map t_id (tasks s)),
                           title = ttl,
                           description = dict_get (f_description data),
                           status = (case f_status data of None \<Rightarrow> ''pending'' | Some v \<Rightarrow> v),
                           priority = (case f_priority data of None \<Rightarrow> ''medium'' | Some v \<Rightarrow> v),
                           employee_id = dict_get (f_employee_id data),
                           deadline = dict_get (f_deadline data),
                           t_created_at = now, t_updated_at = now\<rparr>
                    in if fk_violation (employee_id new_task) s then (Inl Unexpected, s)
                       else (Inr new_task, s\<lparr>tasks := tasks s @ [new_task]\<rparr>))))"

definition setattr_task :: "task_fields \<Rightarrow> task \<Rightarrow> task" where
  "setattr_task data t =
     t\<lparr>title := (case f_title data of None \<Rightarrow> title t | Some v \<Rightarrow> v),
       description := (case f_description data of None \<Rightarrow> description t | Some v \<Rightarrow> v),
       status := (case f_status data of None \<Rightarrow> status t | Some v \<Rightarrow> v),
       priority := (case f_priority data of None \<Rightarrow> priority t | Some v \<Rightarrow> v),
       employee_id := (case f_employee_id data of None \<Rightarrow> employee_id t | Some v \<Rightarrow> v),
       deadline := (case f_deadline data of None \<Rightarrow> deadline t | Some v \<Rightarrow> v)\<rparr>"

definition commit_task ::
  "datetime \<Rightarrow> task \<Rightarrow> task \<Rightarrow> store \<Rightarrow> error + task \<times> store" where
  "commit_task now old new s =
     (if new = old then Inr (old, s)
      else if employee_id new \<noteq> employee_id old \<and> fk_violation (employee_id new) s
        then Inl Unexpected
      else (let stamped = new\<lparr>t_updated_at := now\<rparr>
            in Inr (stamped,
                    s\<lparr>tasks := map (\<lambda>t. if t_id t = t_id old then stamped else t) (tasks s)\<rparr>)))"

definition update_task ::
  "datetime \<Rightarrow> int \<Rightarrow> task_fields \<Rightarrow> store \<Rightarrow> (error + task) \<times> store" where
  "update_task now task_id data s =
     (case session_get_task task_id s of
        None \<Rightarrow> (Inl (lookup_failure task_id TaskNotFound), s)
      | Some tsk \<Rightarrow>
          (case missing_employee (dict_get (f_employee_id data)) s of
             Some err \<Rightarrow> (Inl err, s)
           | None \<Rightarrow>
               (case commit_task now tsk (setattr_task data tsk) s of
                  Inl err \<Rightarrow> (Inl err, s)
                | Inr (updated, s') \<Rightarrow> (Inr updated, s'))))"

definition delete_task :: "int \<Rightarrow> store \<Rightarrow> (error + unit) \<times> store" where
  "delete_task task_id s =
     (case session_get_task task_id s of
        None \<Rightarrow> (Inl (lookup_failure task_id TaskNotFound), s)
      | Some tsk \<Rightarrow> (Inr (), s\<lparr>tasks := filter (\<lambda>t. t_id t \<noteq> t_id tsk) (tasks s)\<rparr>))"

section \<open>Listing: filters, ordering, pagination\<close>












definition status_filter :: "string option \<Rightarrow> task \<Rightarrow> bool" where
  \<comment> \<open>\<^verbatim>\<open>if status: query.filter(Task.status == status)\<close>\<close>
  "status_filter v t =
     (case v of None \<Rightarrow> True
      | Some f \<Rightarrow> if \<not> truthy_str (Some f) then True else status t = f)"

definition priority_filter :: "string option \<Rightarrow> task \<Rightarrow> bool" where
  "priority_filter v t =
     (case v of None \<Rightarrow> True
      | Some f \<Rightarrow> if \<not> truthy_str (Some f) then True else priority t = f)"

definition employee_id_filter :: "int option \<Rightarrow> task \<Rightarrow> bool" where
  \<comment> \<open>\<^verbatim>\<open>if employee_id: query.filter(Task.employee_id == employee_id)\<close>\<close>
  "employee_id_filter v t =
     (case v of None \<Rightarrow> True
      | Some k \<Rightarrow> if \<not> truthy_id (Some k) then True else employee_id t = Some k)"

record pagination_info =
  pg_page :: int
  pg_per_page :: int
  total :: int
  pages :: int
  has_next :: bool
  has_prev :: bool

definition paginate :: "int \<Rightarrow> int \<Rightarrow> 'a list \<Rightarrow> error + 'a list \<times> pagination_info" where
  \<comment> \<open>Flask-SQLAlchemy's \<^verbatim>\<open>query.paginate(page, per_page, error_out=False)\<close>: a page
      below 1 becomes 1 and a page size below 1 becomes 20; the items are the slice at
      offset \<open>(page - 1) * per_page\<close>, and the page count is the total divided by the
      page size, rounded up. Limit and offset are bound as parameters, so the driver
      raises for one that is not a 64-bit integer.\<close>
  "paginate page per_page rows =
     (let page = (if page < 1 then 1 else page);
          per_page = (if per_page < 1 then 20 else per_page);
          skip = (page - 1) * per_page
      in if sqlite_int per_page \<and> sqlite_int skip
         then (let items = take (nat per_page) (drop (nat skip) rows);
                   n = int (length rows);
                   pgs = (if n = 0 then 0 else (n + per_page - 1) div per_page)
               in Inr (items,
                       \<lparr>pg_page = page, pg_per_page = per_page, total = n, pages = pgs,
                        has_next = (page < pgs), has_prev = (page > 1)\<rparr>))
         else Inl Unexpected)"


definition get_all_tasks ::
  "int \<Rightarrow> int \<Rightarrow> string option \<Rightarrow> string option \<Rightarrow> int option \<Rightarrow> store
     \<Rightarrow> error + task list \<times> pagination_info" where
  \<comment> \<open>The employee filter, where it is applied, is bound as a parameter, so the driver
      raises for one that is not a 64-bit integer.\<close>
  "get_all_tasks page per_page stat prio emp_id s =
     (if (case emp_id of None \<Rightarrow> False | Some k \<Rightarrow> truthy_id (Some k) \<and> \<not> sqlite_int k)
      then Inl Unexpected
      else (let query = tasks s;
                query = filter (status_filter stat) query;
                query = filter (priority_filter prio) query;
                query = filter (employee_id_filter emp_id) query;
                query = sort_key (\<lambda>t. - int (t_created_at t)) query
            in paginate page per_page query))"

section \<open>Integrity of the store\<close>

definition wf_store :: "store \<Rightarrow> bool" where
  \<comment> \<open>What the schema's constraints keep true: the two primary keys and the unique
      index on \<^verbatim>\<open>employees.email\<close>.\<close>
  "wf_store s =
     (distinct (map e_id (employees s)) \<and> distinct (map email (employees s))
      \<and> distinct (map t_id (tasks s)))"

section \<open>The specification's reading of the list filters\<close>






definition page_args_ok :: "int \<Rightarrow> int \<Rightarrow> bool" where
  \<comment> \<open>Page arguments as the routes pass them, with an offset SQLite can hold.\<close>
  "page_args_ok page per_page =
     (1 \<le> page \<and> 1 \<le> per_page \<and> per_page \<le> 100 \<and> sqlite_int ((page - 1) * per_page))"


definition spec_task_matches ::
  "string option \<Rightarrow> string option \<Rightarrow> int option \<Rightarrow> task \<Rightarrow> bool" where
  \<comment> \<open>The specification's wording: the task's status, priority and employee equal
      each filter that is given, an empty string counting as not given.\<close>
  "spec_task_matches stat prio emp t =
     ((case stat of None \<Rightarrow> True | Some v \<Rightarrow> v = [] \<or> status t = v)
      \<and> (case prio of None \<Rightarrow> True | Some v \<Rightarrow> v = [] \<or> priority t = v)
      \<and> (case emp of None \<Rightarrow> True | Some k \<Rightarrow> employee_id t = Some k))"

section \<open>What a partial update may change\<close>

definition employee_absent_kept :: "employee_fields \<Rightarrow> employee \<Rightarrow> employee \<Rightarrow> bool" where
  \<comment> \<open>Every column of \<open>e'\<close> other than \<^verbatim>\<open>updated_at\<close> whose key the payload lacks is
      what it is in \<open>e\<close>; the identity and \<^verbatim>\<open>created_at\<close> are never keys.\<close>
  "employee_absent_kept data e e' =
     (e_id e' = e_id e \<and> e_created_at e' = e_created_at e
      \<and> (f_first_name data = None \<longrightarrow> first_name e' = first_name e)
      \<and> (f_last_name data = None \<longrightarrow> last_name e' = last_name e)
      \<and> (f_email data = None \<longrightarrow> email e' = email e)
      \<and> (f_phone data = None \<longrightarrow> phone e' = phone e)
      \<and> (f_department data = None \<longrightarrow> department e' = department e)
      \<and> (f_position data = None \<longrightarrow> position e' = position e)
      \<and> (f_hire_date data = None \<longrightarrow> hire_date e' = hire_date e))"

definition employee_present_set :: "employee_fields \<Rightarrow> employee \<Rightarrow> bool" where
  \<comment> \<open>Every column of \<open>e'\<close> whose key the payload has holds the payload's value.\<close>
  "employee_present_set data e' =
     ((\<forall>v. f_first_name data = Some v \<longrightarrow> first_name e' = v)
      \<and> (\<forall>v. f_last_name data = Some v \<longrightarrow> last_name e' = v)
      \<and> (\<forall>v. f_email data = Some v \<longrightarrow> email e' = v)
      \<and> (\<forall>v. f_phone data = Some v \<longrightarrow> phone e' = v)
      \<and> (\<forall>v. f_department data = Some v \<longrightarrow> department e' = v)
      \<and> (\<forall>v. f_position data = Some v \<longrightarrow> position e' = v)
      \<and> (\<forall>v. f_hire_date data = Some v \<longrightarrow> hire_date e' = v))"

definition task_absent_kept :: "task_fields \<Rightarrow> task \<Rightarrow> task \<Rightarrow> bool" where
  "task_absent_kept data t t' =
     (t_id t' = t_id t \<and> t_created_at t' = t_created_at t
      \<and> (f_title data = None \<longrightarrow> title t' = title t)
      \<and> (f_description data = None \<longrightarrow> description t' = description t)
      \<and> (f_status data = None \<longrightarrow> status t' = status t)
      \<and> (f_priority data = None \<longrightarrow> priority t' = priority t)
      \<and> (f_employee_id data = None \<longrightarrow> employee_id t' = employee_id t)
      \<and> (f_deadline data = None \<longrightarrow> deadline t' = deadline t))"

definition task_present_set :: "task_fields \<Rightarrow> task \<Rightarrow> bool" where
  "task_present_set data t' =
     ((\<forall>v. f_title data = Some v \<longrightarrow> title t' = v)
      \<and> (\<forall>v. f_description data = Some v \<longrightarrow> description t' = v)
      \<and> (\<forall>v. f_status data = Some v \<longrightarrow> status t' = v)
      \<and> (\<forall>v. f_priority data = Some v \<longrightarrow> priority t' = v)
      \<and> (\<forall>v. f_employee_id data = Some v \<longrightarrow> employee_id t' = v)
      \<and> (\<forall>v. f_deadline data = Some v \<longrightarrow> deadline t' = v))"

section \<open>Sample data\<close>

definition alice :: employee where
  "alice =
     \<lparr>e_id = 1, first_name = ''Alice'', last_name = ''Ng'', email = ''alice@example.com'',
      phone = None, department = Some ''Engineering'', position = Some ''Backend Developer'',
      hire_date = None, e_created_at = 10, e_updated_at = 10\<rparr>"

definition bob :: employee where
  "bob =
     \<lparr>e_id = 2, first_name = ''Bob'', last_name = ''Roy'', email = ''bob@example.com'',
      phone = Some ''555-0100'', department = Some ''R&D'', position = None,
      hire_date = Some 738000, e_created_at = 20, e_updated_at = 20\<rparr>"

definition demo_store :: store where
  "demo_store = \<lparr>employees = [alice, bob], tasks = [], fk_enforced = False\<rparr>"

definition another_user :: employee_fields where
  "another_user =
     no_employee_fields\<lparr>f_first_name := Some ''Another'', f_last_name := Some ''User'',
       f_email := Some ''alice@example.com''\<rparr>"

definition task1 :: task where
  "task1 = \<lparr>t_id = 1, title = ''Write report'', description = None, status = ''pending'',
     priority = ''medium'', employee_id = Some 1, deadline = None,
     t_created_at = 11, t_updated_at = 11\<rparr>"

definition task2 :: task where
  "task2 = \<lparr>t_id = 2, title = ''Review design'', description = Some ''v2'', status = ''in_progress'',
     priority = ''high'', employee_id = Some 2, deadline = Some 738100,
     t_created_at = 21, t_updated_at = 22\<rparr>"

definition task3 :: task where
  "task3 = \<lparr>t_id = 3, title = ''Order supplies'', description = None, status = ''pending'',
     priority = ''low'', employee_id = None, deadline = None,
     t_created_at = 31, t_updated_at = 31\<rparr>"

definition office_store :: store where
  "office_store = \<lparr>employees = [alice, bob], tasks = [task1, task2, task3], fk_enforced = False\<rparr>"

definition take_bobs_email :: employee_fields where
  "take_bobs_email = no_employee_fields\<lparr>f_email := Some ''bob@example.com''\<rparr>"

definition keep_email_new_position :: employee_fields where
  "keep_email_new_position = no_employee_fields\<lparr>f_email := Some ''alice@example.com'',
     f_position := Some (Some ''Staff Engineer'')\<rparr>"

definition empty_store :: store where
  "empty_store = \<lparr>employees = [], tasks = [], fk_enforced = False\<rparr>"

definition task_for_nobody :: task_fields where
  "task_for_nobody = no_task_fields\<lparr>f_title := Some ''Test Task'', f_employee_id := Some (Some 0)\<rparr>"

definition bare_task :: task_fields where
  "bare_task = no_task_fields\<lparr>f_title := Some ''Test Task''\<rparr>"

definition created_bare_task :: task where
  "created_bare_task = \<lparr>t_id = 4, title = ''Test Task'', description = None, status = ''pending'',
     priority = ''medium'', employee_id = None, deadline = None,
     t_created_at = 50, t_updated_at = 50\<rparr>"

definition created_for_nobody :: task where
  "created_for_nobody = \<lparr>t_id = 1, title = ''Test Task'', description = None, status = ''pending'',
     priority = ''medium'', employee_id = Some 0, deadline = None,
     t_created_at = 5, t_updated_at = 5\<rparr>"

definition new_position :: employee_fields where
  "new_position = no_employee_fields\<lparr>f_position := Some (Some ''Staff Engineer'')\<rparr>"

definition done_urgent :: task_fields where
  "done_urgent = no_task_fields\<lparr>f_status := Some ''completed'', f_priority := Some ''urgent''\<rparr>"

definition alice_promoted :: employee where
  "alice_promoted = alice\<lparr>position := Some ''Staff Engineer'', e_updated_at := 40\<rparr>"

definition task1_done :: task where
  "task1_done = task1\<lparr>status := ''completed'', priority := ''urgent'', t_updated_at := 40\<rparr>"





definition page_of :: "int \<Rightarrow> int \<Rightarrow> int \<Rightarrow> int \<Rightarrow> pagination_info" where
  \<comment> \<open>The pagination metadata for a page, a page size, a total and a page count.\<close>
  "page_of p pp n pgs =
     \<lparr>pg_page = p, pg_per_page = pp, total = n, pages = pgs,
      has_next = (p < pgs), has_prev = (p > 1)\<rparr>"

section \<open>Auxiliary facts\<close>

lemma find_None_conv: "(find P xs = None) = (\<forall>x\<in>set xs. \<not> P x)"
  by (induction xs) auto

lemma find_Some_holds: "find P xs = Some x \<Longrightarrow> P x \<and> x \<in> set xs"
  by (induction xs) (auto split: if_splits)

lemma distinct_map_filter_one:
  "distinct (map f xs) \<Longrightarrow> x \<in> set xs \<Longrightarrow> length (filter (\<lambda>e. f e = f x) xs) = 1"
proof (induction xs)
  case Nil
  then show ?case by simp
next
  case (Cons y ys)
  show ?case
  proof (cases "f y = f x")
    case True
    with Cons.prems have "\<forall>e\<in>set ys. f e \<noteq> f x" by (auto simp: image_iff)
    then have "filter (\<lambda>e. f e = f x) ys = []" by (simp add: filter_empty_conv)
    with True show ?thesis by simp
  next
    case False
    with Cons show ?thesis by auto
  qed
qed

lemma wf_demo_store: "wf_store demo_store"
  by (simp add: wf_store_def demo_store_def alice_def bob_def)

section \<open>Creating an employee with an email already in use\<close>

text \<open>
  C1. In a store that satisfies its constraints, creating an employee whose email is
  that of a stored employee fails with the duplicate-email outcome and leaves the store
  as it was; exactly one employee holds that email afterwards.
\<close>

theorem create_employee_duplicate_email:
  assumes "wf_store s" and "f_email data = Some em"
    and "em \<in> set (map email (employees s))"
  shows "fst (create_employee now data s) = Inl EmailExists
       \<and> snd (create_employee now data s) = s
       \<and> length (filter (\<lambda>e. email e = em)
            (employees (snd (create_employee now data s)))) = 1"
proof -
  from assms(3) obtain x where x: "x \<in> set (employees s)" "email x = em" by auto
  then have "find (\<lambda>e. email e = em) (employees s) \<noteq> None"
    by (auto simp: find_None_conv)
  then obtain y where "filter_by_email_first (f_email data) s = Some y"
    using assms(2) by (auto simp: filter_by_email_first_def)
  then have r: "create_employee now data s = (Inl EmailExists, s)"
    by (simp add: create_employee_def)
  from assms(1) have "distinct (map email (employees s))" by (simp add: wf_store_def)
  from distinct_map_filter_one[OF this x(1)] x(2)
  have "length (filter (\<lambda>e. email e = em) (employees s)) = 1" by simp
  with r show ?thesis by simp
qed

theorem create_employee_duplicate_email_witness:
  "wf_store demo_store
   \<and> f_email another_user = Some ''alice@example.com''
   \<and> ''alice@example.com'' \<in> set (map email (employees demo_store))
   \<and> fst (create_employee 30 another_user demo_store) = Inl EmailExists
   \<and> snd (create_employee 30 another_user demo_store) = demo_store
   \<and> length (filter (\<lambda>e. email e = ''alice@example.com'')
        (employees (snd (create_employee 30 another_user demo_store)))) = 1"
proof -
  have h1: "wf_store demo_store" by (rule wf_demo_store)
  have h2: "f_email another_user = Some ''alice@example.com''"
    by (simp add: another_user_def no_employee_fields_def)
  have h3: "''alice@example.com'' \<in> set (map email (employees demo_store))"
    by (simp add: demo_store_def alice_def)
  from create_employee_duplicate_email[OF h1 h2 h3, of 30] h1 h2 h3
  show ?thesis by blast
qed

section \<open>Pagination parameters\<close>

text \<open>
  C5, as the routes implement it. Both list routes hand the service a page of at least
  1 and a page size between 1 and 100. A page below 1 becomes 1; a page size in range
  is passed through, and a page size out of range, on either side, becomes the
  default 10.
\<close>

theorem page_args_reset:
  "get_employees_args page per_page =
      (max 1 page, if 1 \<le> per_page \<and> per_page \<le> 100 then per_page else 10)
   \<and> get_tasks_args page per_page = get_employees_args page per_page
   \<and> 1 \<le> fst (get_employees_args page per_page)
   \<and> 1 \<le> snd (get_employees_args page per_page)
   \<and> snd (get_employees_args page per_page) \<le> 100"
  by (auto simp: get_employees_args_def get_tasks_args_def Let_def)

text \<open>
  C5 as stated fails: a page size of 150 is replaced by 10, not by the bound 100, and a
  page size of 0 by 10, not by the bound 1.
\<close>

theorem page_args_not_clamped:
  "get_employees_args 1 150 = (1, 10) \<and> spec_clamp_args 1 150 = (1, 100)
   \<and> get_tasks_args 1 0 = (1, 10) \<and> spec_clamp_args 1 0 = (1, 1)"
  by (simp add: get_employees_args_def get_tasks_args_def spec_clamp_args_def)

section \<open>Deleting an employee\<close>

text \<open>
  C3. Deleting an employee that is in the store succeeds; afterwards a lookup of the
  employee's identity finds nothing, and so does a lookup of the identity of every task
  that referenced the employee.
\<close>

theorem delete_employee_cascade:
  assumes "get_employee_by_id emp_id s = Some e"
  shows "fst (delete_employee emp_id s) = Inr ()
     \<and> get_employee_by_id emp_id (snd (delete_employee emp_id s)) = None
     \<and> (\<forall>t \<in> set (tasks s). employee_id t = Some emp_id \<longrightarrow>
           get_task_by_id (t_id t) (snd (delete_employee emp_id s)) = None)"
proof -
  from assms have g: "session_get_employee emp_id s = Some e"
    by (simp add: get_employee_by_id_def)
  then have id: "e_id e = emp_id"
    by (auto simp: session_get_employee_def dest: find_Some_holds)
  let ?owned = "filter (\<lambda>t. employee_id t = Some emp_id) (tasks s)"
  have r: "delete_employee emp_id s =
      (Inr (), s\<lparr>tasks := filter (\<lambda>t. t_id t \<notin> set (map t_id ?owned)) (tasks s),
                 employees := filter (\<lambda>x. e_id x \<noteq> emp_id) (employees s)\<rparr>)"
    using g id by (simp add: delete_employee_def Let_def)
  have e: "get_employee_by_id emp_id (snd (delete_employee emp_id s)) = None"
    by (simp add: r get_employee_by_id_def session_get_employee_def find_None_conv)
  have t: "get_task_by_id (t_id t) (snd (delete_employee emp_id s)) = None"
    if "t \<in> set (tasks s)" "employee_id t = Some emp_id" for t
  proof -
    from that have "t_id t \<in> set (map t_id ?owned)" by auto
    then show ?thesis
      by (auto simp: r get_task_by_id_def session_get_task_def find_None_conv)
  qed
  from r e t show ?thesis by simp
qed

theorem delete_employee_cascade_witness:
  "get_employee_by_id 1 office_store = Some alice
   \<and> fst (delete_employee 1 office_store) = Inr ()
   \<and> get_employee_by_id 1 (snd (delete_employee 1 office_store)) = None
   \<and> task1 \<in> set (tasks office_store) \<and> employee_id task1 = Some 1
   \<and> get_task_by_id (t_id task1) (snd (delete_employee 1 office_store)) = None
   \<and> tasks (snd (delete_employee 1 office_store)) = [task2, task3]"
proof -
  have h: "get_employee_by_id 1 office_store = Some alice"
    by (simp add: get_employee_by_id_def session_get_employee_def office_store_def alice_def)
  have m: "task1 \<in> set (tasks office_store)" "employee_id task1 = Some 1"
    by (simp_all add: office_store_def task1_def)
  have rest: "tasks (snd (delete_employee 1 office_store)) = [task2, task3]"
    by (simp add: delete_employee_def session_get_employee_def office_store_def alice_def
        task1_def task2_def task3_def)
  from delete_employee_cascade[OF h] h m rest show ?thesis by blast
qed

section \<open>Updating an employee's email\<close>

text \<open>
  C4. In a store that satisfies its constraints, updating employee A with the email of
  a different employee B fails with the duplicate-email outcome, and the store,
  hence every field of both records, is what it was before.
\<close>

theorem update_employee_duplicate_email:
  assumes "wf_store s"
    and "get_employee_by_id a_id s = Some a" and "get_employee_by_id b_id s = Some b"
    and "a_id \<noteq> b_id" and "f_email data = Some (email b)"
  shows "fst (update_employee now a_id data s) = Inl EmailExists
     \<and> snd (update_employee now a_id data s) = s
     \<and> get_employee_by_id a_id (snd (update_employee now a_id data s)) = Some a
     \<and> get_employee_by_id b_id (snd (update_employee now a_id data s)) = Some b"
proof -
  from assms(2) have ga: "session_get_employee a_id s = Some a"
    by (simp add: get_employee_by_id_def)
  then have a: "a \<in> set (employees s)" "e_id a = a_id"
    by (auto simp: session_get_employee_def dest: find_Some_holds)
  from assms(3) have b: "b \<in> set (employees s)" "e_id b = b_id"
    by (auto simp: get_employee_by_id_def session_get_employee_def dest: find_Some_holds)
  from assms(1) have "inj_on email (set (employees s))"
    by (simp add: wf_store_def distinct_map)
  with a b assms(4) have ne: "email b \<noteq> email a"
    by (auto dest: inj_onD)
  from b(1) have "filter_by_email_first (Some (email b)) s \<noteq> None"
    by (auto simp: filter_by_email_first_def find_None_conv)
  with ga ne assms(5) have "update_employee now a_id data s = (Inl EmailExists, s)"
    by (simp add: update_employee_def)
  with assms(2,3) show ?thesis by simp
qed

theorem update_employee_duplicate_email_witness:
  "wf_store demo_store
   \<and> get_employee_by_id 1 demo_store = Some alice \<and> get_employee_by_id 2 demo_store = Some bob
   \<and> f_email take_bobs_email = Some (email bob)
   \<and> fst (update_employee 40 1 take_bobs_email demo_store) = Inl EmailExists
   \<and> snd (update_employee 40 1 take_bobs_email demo_store) = demo_store"
proof -
  have h1: "wf_store demo_store" by (rule wf_demo_store)
  have h2: "get_employee_by_id 1 demo_store = Some alice"
    by (simp add: get_employee_by_id_def session_get_employee_def demo_store_def alice_def)
  have h3: "get_employee_by_id 2 demo_store = Some bob"
    by (simp add: get_employee_by_id_def session_get_employee_def demo_store_def alice_def bob_def)
  have h4: "(1::int) \<noteq> 2" by simp
  have h5: "f_email take_bobs_email = Some (email bob)"
    by (simp add: take_bobs_email_def no_employee_fields_def bob_def)
  from update_employee_duplicate_email[OF h1 h2 h3 h4 h5, of 40] h1 h2 h3 h5
  show ?thesis by blast
qed

text \<open>
  C10. An update whose email is the employee's current email skips the uniqueness check
  and succeeds, whatever else the payload sets; the email stays what it was.
\<close>

theorem update_employee_own_email:
  assumes "get_employee_by_id emp_id s = Some e" and "f_email data = Some (email e)"
  shows "\<exists>e'. fst (update_employee now emp_id data s) = Inr e' \<and> email e' = email e"
proof -
  from assms(1) have g: "session_get_employee emp_id s = Some e"
    by (simp add: get_employee_by_id_def)
  have em: "email (setattr_employee data e) = email e"
    using assms(2) by (simp add: setattr_employee_def)
  show ?thesis
    using g assms(2) em
    by (auto simp: update_employee_def commit_employee_def Let_def)
qed

theorem update_employee_own_email_witness:
  "get_employee_by_id 1 demo_store = Some alice
   \<and> f_email keep_email_new_position = Some (email alice)
   \<and> fst (update_employee 40 1 keep_email_new_position demo_store)
       = Inr (alice\<lparr>position := Some ''Staff Engineer'', e_updated_at := 40\<rparr>)"
proof -
  have h1: "get_employee_by_id 1 demo_store = Some alice"
    by (simp add: get_employee_by_id_def session_get_employee_def demo_store_def alice_def)
  have h2: "f_email keep_email_new_position = Some (email alice)"
    by (simp add: keep_email_new_position_def no_employee_fields_def alice_def)
  have r: "fst (update_employee 40 1 keep_email_new_position demo_store)
       = Inr (alice\<lparr>position := Some ''Staff Engineer'', e_updated_at := 40\<rparr>)"
    by (simp add: update_employee_def commit_employee_def setattr_employee_def Let_def
        session_get_employee_def keep_email_new_position_def no_employee_fields_def
        demo_store_def alice_def bob_def)
  from update_employee_own_email[OF h1 h2, of 40] h1 h2 r show ?thesis by blast
qed

section \<open>Fresh identities and lookups\<close>

lemma fold_max_ge: "a \<le> fold max ids (a::int)"
  by (induction ids arbitrary: a) (auto intro: order_trans[OF max.cobounded2])

lemma fold_max_upper: "x \<in> set ids \<Longrightarrow> x \<le> fold max ids (a::int)"
proof (induction ids arbitrary: a)
  case Nil
  then show ?case by simp
next
  case (Cons y ys)
  show ?case
  proof (cases "x = y")
    case True
    have "y \<le> max y a" by simp
    also have "\<dots> \<le> fold max ys (max y a)" by (rule fold_max_ge)
    finally show ?thesis using True by simp
  next
    case False
    with Cons show ?thesis by simp
  qed
qed

lemma next_id_fresh: "next_id ids \<notin> set ids"
proof
  assume "next_id ids \<in> set ids"
  then have "next_id ids \<le> fold max ids 0" by (rule fold_max_upper)
  then show False by (simp add: next_id_def)
qed

lemma find_append_last: "\<forall>x\<in>set xs. \<not> P x \<Longrightarrow> P y \<Longrightarrow> find P (xs @ [y]) = Some y"
  by (induction xs) auto

lemma missing_employee_None:
  "(case v of None \<Rightarrow> True | Some k \<Rightarrow> session_get_employee k s \<noteq> None)
   \<Longrightarrow> missing_employee v s = None \<and> \<not> fk_violation v s"
  by (auto simp: missing_employee_def fk_violation_def split: option.splits)

text \<open>
  A reference to an employee that does not exist is rejected with the missing-employee
  outcome, and nothing is stored, whenever the identity is not zero and is one the driver
  can bind; for an identity it cannot bind the lookup raises and the outcome is the
  generic one.
\<close>

lemma create_task_missing_employee:
  "dict_get (f_employee_id data) = Some k \<Longrightarrow> k \<noteq> 0 \<Longrightarrow> sqlite_int k
   \<Longrightarrow> get_employee_by_id k s = None
   \<Longrightarrow> create_task now data s = (Inl (RefEmployeeNotFound k), s)"
  by (simp add: create_task_def missing_employee_def truthy_id_def get_employee_by_id_def
      lookup_failure_def)

lemma create_task_employee_overflow:
  "dict_get (f_employee_id data) = Some k \<Longrightarrow> \<not> sqlite_int k
   \<Longrightarrow> get_employee_by_id k s = None
   \<Longrightarrow> create_task now data s = (Inl Unexpected, s)"
  by (auto simp: create_task_def missing_employee_def truthy_id_def get_employee_by_id_def
      lookup_failure_def sqlite_int_def)

section \<open>Creating a task\<close>

text \<open>
  C7. A payload with a title and with no employee, or with an employee that exists,
  creates a task. Whenever a task is created, it is stored under its identity; its
  status is \<^verbatim>\<open>pending\<close> when the payload has no status and the payload's status
  otherwise, and its priority is \<^verbatim>\<open>medium\<close> when the payload has no priority and the
  payload's priority otherwise.
\<close>

theorem create_task_defaults:
  "(f_title data = Some ttl
      \<and> (case dict_get (f_employee_id data) of
            None \<Rightarrow> True | Some k \<Rightarrow> get_employee_by_id k s \<noteq> None)
      \<longrightarrow> (\<exists>t. create_task now data s = (Inr t, s\<lparr>tasks := tasks s @ [t]\<rparr>)))
   \<and> (\<forall>t s'. create_task now data s = (Inr t, s') \<longrightarrow>
         get_task_by_id (t_id t) s' = Some t
       \<and> (f_status data = None \<longrightarrow> status t = ''pending'')
       \<and> (\<forall>v. f_status data = Some v \<longrightarrow> status t = v)
       \<and> (f_priority data = None \<longrightarrow> priority t = ''medium'')
       \<and> (\<forall>v. f_priority data = Some v \<longrightarrow> priority t = v))"
proof (intro conjI impI allI)
  assume a: "f_title data = Some ttl
      \<and> (case dict_get (f_employee_id data) of
            None \<Rightarrow> True | Some k \<Rightarrow> get_employee_by_id k s \<noteq> None)"
  then have "missing_employee (dict_get (f_employee_id data)) s = None
           \<and> \<not> fk_violation (dict_get (f_employee_id data)) s"
    by (intro missing_employee_None) (auto simp: get_employee_by_id_def split: option.splits)
  with a show "\<exists>t. create_task now data s = (Inr t, s\<lparr>tasks := tasks s @ [t]\<rparr>)"
    by (simp add: create_task_def Let_def)
next
  fix t s' assume r: "create_task now data s = (Inr t, s')"
  then have s': "s' = s\<lparr>tasks := tasks s @ [t]\<rparr>" and i: "t_id t = next_id (map t_id (tasks s))"
    by (auto simp: create_task_def Let_def split: option.splits if_splits)
  have "\<forall>x\<in>set (tasks s). t_id x \<noteq> t_id t"
    using next_id_fresh[of "map t_id (tasks s)"] i by (auto simp: image_iff)
  then show "get_task_by_id (t_id t) s' = Some t"
    by (simp add: s' get_task_by_id_def session_get_task_def find_append_last)
next
  fix t s' assume "create_task now data s = (Inr t, s')" "f_status data = None"
  then show "status t = ''pending''"
    by (auto simp: create_task_def Let_def split: option.splits if_splits)
next
  fix t s' v assume "create_task now data s = (Inr t, s')" "f_status data = Some v"
  then show "status t = v"
    by (auto simp: create_task_def Let_def split: option.splits if_splits)
next
  fix t s' assume "create_task now data s = (Inr t, s')" "f_priority data = None"
  then show "priority t = ''medium''"
    by (auto simp: create_task_def Let_def split: option.splits if_splits)
next
  fix t s' v assume "create_task now data s = (Inr t, s')" "f_priority data = Some v"
  then show "priority t = v"
    by (auto simp: create_task_def Let_def split: option.splits if_splits)
qed

theorem create_task_defaults_witness:
  "f_title bare_task = Some ''Test Task'' \<and> f_status bare_task = None \<and> f_priority bare_task = None
   \<and> dict_get (f_employee_id bare_task) = None
   \<and> create_task 50 bare_task office_store
        = (Inr created_bare_task, office_store\<lparr>tasks := tasks office_store @ [created_bare_task]\<rparr>)
   \<and> status created_bare_task = ''pending'' \<and> priority created_bare_task = ''medium''"
proof -
  have h: "f_title bare_task = Some ''Test Task''" "f_status bare_task = None"
    "f_priority bare_task = None" "dict_get (f_employee_id bare_task) = None"
    by (simp_all add: bare_task_def no_task_fields_def dict_get_def)
  have r: "create_task 50 bare_task office_store
        = (Inr created_bare_task, office_store\<lparr>tasks := tasks office_store @ [created_bare_task]\<rparr>)"
    by (simp add: create_task_def missing_employee_def fk_violation_def dict_get_def Let_def
        bare_task_def no_task_fields_def created_bare_task_def next_id_def
        office_store_def task1_def task2_def task3_def)
  from create_task_defaults[of bare_task "''Test Task''" office_store 50] r h
  have "status created_bare_task = ''pending'' \<and> priority created_bare_task = ''medium''"
    by blast
  with h r show ?thesis by blast
qed

text \<open>
  C2 at the payload \<^verbatim>\<open>{"title": "Test Task", "employee_id": 0}\<close> on an empty store. The
  identity 0 is provided and not null, and no employee has it, yet the guard
  \<^verbatim>\<open>if employee_id:\<close> skips the lookup: where the engine does not enforce the foreign
  key the task is stored with the dangling reference, and where it does the call fails
  with the generic error, not with the missing-employee outcome.
\<close>

theorem create_task_employee_zero:
  "dict_get (f_employee_id task_for_nobody) = Some 0
   \<and> get_employee_by_id 0 empty_store = None
   \<and> create_task 5 task_for_nobody empty_store
        = (Inr created_for_nobody, empty_store\<lparr>tasks := [created_for_nobody]\<rparr>)
   \<and> create_task 5 task_for_nobody (empty_store\<lparr>fk_enforced := True\<rparr>)
        = (Inl Unexpected, empty_store\<lparr>fk_enforced := True\<rparr>)"
  by (simp add: create_task_def missing_employee_def truthy_id_def fk_violation_def dict_get_def
      Let_def task_for_nobody_def no_task_fields_def created_for_nobody_def next_id_def
      get_employee_by_id_def session_get_employee_def empty_store_def)

section \<open>Outcomes of an update\<close>

lemma find_map_replace:
  "find (\<lambda>x. k x = i) xs = Some e \<Longrightarrow> k c = i
   \<Longrightarrow> find (\<lambda>x. k x = i) (map (\<lambda>x. if k x = i then c else x) xs) = Some c"
  by (induction xs) (auto split: if_splits)

lemma update_employee_outcome:
  assumes "get_employee_by_id emp_id s = Some e"
  shows "(\<exists>err. update_employee now emp_id data s = (Inl err, s))
       \<or> (\<exists>s'. update_employee now emp_id data s
                  = (Inr (if setattr_employee data e = e then e
                          else (setattr_employee data e)\<lparr>e_updated_at := now\<rparr>), s')
              \<and> get_employee_by_id emp_id s'
                  = Some (if setattr_employee data e = e then e
                          else (setattr_employee data e)\<lparr>e_updated_at := now\<rparr>))"
proof -
  from assms have g: "find (\<lambda>x. e_id x = emp_id) (employees s) = Some e"
    by (simp add: get_employee_by_id_def session_get_employee_def)
  then have id: "e_id e = emp_id" by (auto dest: find_Some_holds)
  have id': "e_id ((setattr_employee data e)\<lparr>e_updated_at := now\<rparr>) = emp_id"
    using id by (simp add: setattr_employee_def)
  note r = find_map_replace[OF g id']
  show ?thesis
    using g id r
    by (auto simp: update_employee_def commit_employee_def Let_def
        get_employee_by_id_def session_get_employee_def)
qed

lemma update_task_outcome:
  assumes "get_task_by_id task_id s = Some t"
  shows "(\<exists>err. update_task now task_id data s = (Inl err, s))
       \<or> (\<exists>s'. update_task now task_id data s
                  = (Inr (if setattr_task data t = t then t
                          else (setattr_task data t)\<lparr>t_updated_at := now\<rparr>), s')
              \<and> get_task_by_id task_id s'
                  = Some (if setattr_task data t = t then t
                          else (setattr_task data t)\<lparr>t_updated_at := now\<rparr>))"
proof -
  from assms have g: "find (\<lambda>x. t_id x = task_id) (tasks s) = Some t"
    by (simp add: get_task_by_id_def session_get_task_def)
  then have id: "t_id t = task_id" by (auto dest: find_Some_holds)
  have id': "t_id ((setattr_task data t)\<lparr>t_updated_at := now\<rparr>) = task_id"
    using id by (simp add: setattr_task_def)
  note r = find_map_replace[OF g id']
  show ?thesis
    using g id r
    by (auto simp: update_task_def commit_task_def Let_def
        get_task_by_id_def session_get_task_def split: option.splits)
qed

lemma setattr_employee_fields:
  "e_id (setattr_employee data e) = e_id e"
  "e_created_at (setattr_employee data e) = e_created_at e"
  "e_updated_at (setattr_employee data e) = e_updated_at e"
  "first_name (setattr_employee data e) = (case f_first_name data of None \<Rightarrow> first_name e | Some v \<Rightarrow> v)"
  "last_name (setattr_employee data e) = (case f_last_name data of None \<Rightarrow> last_name e | Some v \<Rightarrow> v)"
  "email (setattr_employee data e) = (case f_email data of None \<Rightarrow> email e | Some v \<Rightarrow> v)"
  "phone (setattr_employee data e) = (case f_phone data of None \<Rightarrow> phone e | Some v \<Rightarrow> v)"
  "department (setattr_employee data e) = (case f_department data of None \<Rightarrow> department e | Some v \<Rightarrow> v)"
  "position (setattr_employee data e) = (case f_position data of None \<Rightarrow> position e | Some v \<Rightarrow> v)"
  "hire_date (setattr_employee data e) = (case f_hire_date data of None \<Rightarrow> hire_date e | Some v \<Rightarrow> v)"
  by (simp_all add: setattr_employee_def)

lemma setattr_task_fields:
  "t_id (setattr_task data t) = t_id t"
  "t_created_at (setattr_task data t) = t_created_at t"
  "t_updated_at (setattr_task data t) = t_updated_at t"
  "title (setattr_task data t) = (case f_title data of None \<Rightarrow> title t | Some v \<Rightarrow> v)"
  "description (setattr_task data t) = (case f_description data of None \<Rightarrow> description t | Some v \<Rightarrow> v)"
  "status (setattr_task data t) = (case f_status data of None \<Rightarrow> status t | Some v \<Rightarrow> v)"
  "priority (setattr_task data t) = (case f_priority data of None \<Rightarrow> priority t | Some v \<Rightarrow> v)"
  "employee_id (setattr_task data t) = (case f_employee_id data of None \<Rightarrow> employee_id t | Some v \<Rightarrow> v)"
  "deadline (setattr_task data t) = (case f_deadline data of None \<Rightarrow> deadline t | Some v \<Rightarrow> v)"
  by (simp_all add: setattr_task_def)

lemma update_employee_frame:
  assumes "get_employee_by_id emp_id s = Some e"
  shows "\<exists>e'. get_employee_by_id emp_id (snd (update_employee now emp_id data s)) = Some e'
         \<and> employee_absent_kept data e e'
         \<and> (e' = e \<or> e_updated_at e' = now)
         \<and> (\<forall>u. fst (update_employee now emp_id data s) = Inr u \<longrightarrow>
               u = e' \<and> employee_present_set data e')"
proof -
  let ?n = "setattr_employee data e"
  define e' where "e' = (if ?n = e then e else ?n\<lparr>e_updated_at := now\<rparr>)"
  have agree:
    "e_id e' = e_id ?n" "e_created_at e' = e_created_at ?n"
    "first_name e' = first_name ?n" "last_name e' = last_name ?n" "email e' = email ?n"
    "phone e' = phone ?n" "department e' = department ?n" "position e' = position ?n"
    "hire_date e' = hire_date ?n"
    by (simp_all add: e'_def)
  have kept: "employee_absent_kept data e e'"
    by (simp add: employee_absent_kept_def agree setattr_employee_fields)
  have applied: "employee_present_set data e'"
    by (simp add: employee_present_set_def agree setattr_employee_fields)
  have stamp: "e' = e \<or> e_updated_at e' = now" by (simp add: e'_def)
  from update_employee_outcome[OF assms, of now data]
  consider (fail) err where "update_employee now emp_id data s = (Inl err, s)"
    | (ok) s' where "update_employee now emp_id data s = (Inr e', s')"
        "get_employee_by_id emp_id s' = Some e'"
    unfolding e'_def by blast
  then show ?thesis
  proof cases
    case fail
    have "employee_absent_kept data e e" by (simp add: employee_absent_kept_def)
    with fail assms show ?thesis by simp
  next
    case ok
    with kept applied stamp show ?thesis by simp
  qed
qed

lemma update_task_frame:
  assumes "get_task_by_id task_id s = Some t"
  shows "\<exists>t'. get_task_by_id task_id (snd (update_task now task_id data s)) = Some t'
         \<and> task_absent_kept data t t'
         \<and> (t' = t \<or> t_updated_at t' = now)
         \<and> (\<forall>u. fst (update_task now task_id data s) = Inr u \<longrightarrow>
               u = t' \<and> task_present_set data t')"
proof -
  let ?n = "setattr_task data t"
  define t' where "t' = (if ?n = t then t else ?n\<lparr>t_updated_at := now\<rparr>)"
  have agree:
    "t_id t' = t_id ?n" "t_created_at t' = t_created_at ?n"
    "title t' = title ?n" "description t' = description ?n" "status t' = status ?n"
    "priority t' = priority ?n" "employee_id t' = employee_id ?n" "deadline t' = deadline ?n"
    by (simp_all add: t'_def)
  have kept: "task_absent_kept data t t'"
    by (simp add: task_absent_kept_def agree setattr_task_fields)
  have applied: "task_present_set data t'"
    by (simp add: task_present_set_def agree setattr_task_fields)
  have stamp: "t' = t \<or> t_updated_at t' = now" by (simp add: t'_def)
  from update_task_outcome[OF assms, of now data]
  consider (fail) err where "update_task now task_id data s = (Inl err, s)"
    | (ok) s' where "update_task now task_id data s = (Inr t', s')"
        "get_task_by_id task_id s' = Some t'"
    unfolding t'_def by blast
  then show ?thesis
  proof cases
    case fail
    have "task_absent_kept data t t" by (simp add: task_absent_kept_def)
    with fail assms show ?thesis by simp
  next
    case ok
    with kept applied stamp show ?thesis by simp
  qed
qed

section \<open>Partial updates\<close>

text \<open>
  C6. After an update of a stored employee the record under that identity keeps its
  identity, its creation time and every column whose key the payload lacks; besides the
  columns whose keys the payload has, only \<^verbatim>\<open>updated_at\<close> can differ, which the
  update itself maintains: it is the time of the update unless the record is left as it
  was. When the update succeeds, the returned record is the stored one and every column
  whose key the payload has holds the payload's value. The same holds for tasks.
\<close>

theorem partial_update_frame:
  "(get_employee_by_id emp_id s = Some e \<longrightarrow>
      (\<exists>e'. get_employee_by_id emp_id (snd (update_employee now emp_id data s)) = Some e'
         \<and> employee_absent_kept data e e'
         \<and> (e' = e \<or> e_updated_at e' = now)
         \<and> (\<forall>u. fst (update_employee now emp_id data s) = Inr u \<longrightarrow>
               u = e' \<and> employee_present_set data e')))
   \<and> (get_task_by_id task_id s = Some t \<longrightarrow>
      (\<exists>t'. get_task_by_id task_id (snd (update_task now task_id tdata s)) = Some t'
         \<and> task_absent_kept tdata t t'
         \<and> (t' = t \<or> t_updated_at t' = now)
         \<and> (\<forall>u. fst (update_task now task_id tdata s) = Inr u \<longrightarrow>
               u = t' \<and> task_present_set tdata t')))"
  by (intro conjI impI update_employee_frame update_task_frame)

lemma update_alice_position:
  "update_employee 40 1 new_position office_store
     = (Inr alice_promoted, office_store\<lparr>employees := [alice_promoted, bob]\<rparr>)"
  by (simp add: update_employee_def commit_employee_def setattr_employee_def Let_def
      session_get_employee_def new_position_def no_employee_fields_def
      office_store_def alice_promoted_def alice_def bob_def)

lemma update_task1_done:
  "update_task 40 1 done_urgent office_store
     = (Inr task1_done, office_store\<lparr>tasks := [task1_done, task2, task3]\<rparr>)"
  by (simp add: update_task_def commit_task_def setattr_task_def Let_def missing_employee_def
      dict_get_def session_get_task_def done_urgent_def no_task_fields_def
      office_store_def task1_done_def task1_def task2_def task3_def)

theorem partial_update_frame_witness:
  "get_employee_by_id 1 office_store = Some alice
   \<and> fst (update_employee 40 1 new_position office_store) = Inr alice_promoted
   \<and> get_employee_by_id 1 (snd (update_employee 40 1 new_position office_store))
       = Some alice_promoted
   \<and> employee_absent_kept new_position alice alice_promoted
   \<and> employee_present_set new_position alice_promoted
   \<and> get_task_by_id 1 office_store = Some task1
   \<and> fst (update_task 40 1 done_urgent office_store) = Inr task1_done
   \<and> get_task_by_id 1 (snd (update_task 40 1 done_urgent office_store)) = Some task1_done
   \<and> task_absent_kept done_urgent task1 task1_done
   \<and> task_present_set done_urgent task1_done"
proof -
  have h1: "get_employee_by_id 1 office_store = Some alice"
    by (simp add: get_employee_by_id_def session_get_employee_def office_store_def alice_def)
  have h2: "get_task_by_id 1 office_store = Some task1"
    by (simp add: get_task_by_id_def session_get_task_def office_store_def task1_def)
  have r1: "fst (update_employee 40 1 new_position office_store) = Inr alice_promoted"
    by (simp add: update_alice_position)
  have r2: "fst (update_task 40 1 done_urgent office_store) = Inr task1_done"
    by (simp add: update_task1_done)
  from partial_update_frame[of 1 office_store alice 40 new_position 1 task1 done_urgent] h1 h2 r1 r2
  show ?thesis by auto
qed

section \<open>Pattern matching\<close>








section \<open>Letter case\<close>











section \<open>Queries and pages\<close>


lemma paginate_ok:
  assumes "page_args_ok page per_page"
  shows "\<exists>items info. paginate page per_page rows = Inr (items, info)
     \<and> set items \<subseteq> set rows \<and> total info = int (length rows)
     \<and> (page = 1 \<and> int (length rows) \<le> per_page \<longrightarrow> items = rows)"
proof -
  from assms have a: "1 \<le> page" "1 \<le> per_page" "per_page \<le> 100"
    "sqlite_int ((page - 1) * per_page)"
    by (simp_all add: page_args_ok_def)
  from a(2,3) have b: "sqlite_int per_page" by (simp add: sqlite_int_def)
  let ?items = "take (nat per_page) (drop (nat ((page - 1) * per_page)) rows)"
  have sub: "set ?items \<subseteq> set rows"
    by (auto dest: in_set_takeD in_set_dropD)
  have one: "?items = rows" if "page = 1" "int (length rows) \<le> per_page"
    using that by simp
  show ?thesis
    using a b sub one by (auto simp: paginate_def Let_def)
qed


section \<open>Listing employees\<close>





section \<open>Listing tasks\<close>

lemma task_filters_spec:
  assumes "emp \<noteq> Some 0"
  shows "(status_filter stat t \<and> priority_filter prio t \<and> employee_id_filter emp t)
     = spec_task_matches stat prio emp t"
  using assms
  by (auto simp: status_filter_def priority_filter_def employee_id_filter_def
      spec_task_matches_def truthy_str_def truthy_id_def split: option.splits)

text \<open>
  For every employee filter other than 0 that the driver can bind, and page arguments as
  the routes pass them, the listing succeeds and the tasks it selects are exactly those
  whose status, priority and employee equal the filters that are given: the items of the
  page are among them, the total counts them, and when they fit on the first page the
  items are all of them.
\<close>

lemma get_all_tasks_exact_match:
  assumes "emp \<noteq> Some 0" and "case emp of None \<Rightarrow> True | Some k \<Rightarrow> sqlite_int k"
    and "page_args_ok page per_page"
  shows "\<exists>items info. get_all_tasks page per_page stat prio emp s = Inr (items, info)
       \<and> set items \<subseteq> {t \<in> set (tasks s). spec_task_matches stat prio emp t}
       \<and> total info = int (length (filter (spec_task_matches stat prio emp) (tasks s)))
       \<and> (page = 1
            \<and> int (length (filter (spec_task_matches stat prio emp) (tasks s))) \<le> per_page
          \<longrightarrow> set items = {t \<in> set (tasks s). spec_task_matches stat prio emp t})"
proof -
  let ?sel = "filter (spec_task_matches stat prio emp) (tasks s)"
  let ?rows = "sort_key (\<lambda>t. - int (t_created_at t)) ?sel"
  have g: "\<not> (case emp of None \<Rightarrow> False | Some k \<Rightarrow> truthy_id (Some k) \<and> \<not> sqlite_int k)"
    using assms(2) by (auto split: option.splits)
  have r: "get_all_tasks page per_page stat prio emp s = paginate page per_page ?rows"
    using g by (simp add: get_all_tasks_def Let_def task_filters_spec[OF assms(1)])
  have rows: "set ?rows = {t \<in> set (tasks s). spec_task_matches stat prio emp t}"
    "length ?rows = length ?sel"
    by auto
  from paginate_ok[OF assms(3), of ?rows] obtain items info where
    p: "paginate page per_page ?rows = Inr (items, info)"
      "set items \<subseteq> set ?rows" "total info = int (length ?rows)"
      "page = 1 \<and> int (length ?rows) \<le> per_page \<longrightarrow> items = ?rows"
    by blast
  have 1: "get_all_tasks page per_page stat prio emp s = Inr (items, info)"
    using r p(1) by simp
  have 2: "set items \<subseteq> {t \<in> set (tasks s). spec_task_matches stat prio emp t}"
    using p(2) by (simp only: rows)
  have 3: "total info = int (length ?sel)"
    using p(3) by (simp only: rows)
  have 4: "set items = {t \<in> set (tasks s). spec_task_matches stat prio emp t}"
    if "page = 1" "int (length ?sel) \<le> per_page"
    using p(4) that by (simp only: rows)
  from 1 2 3 4 show ?thesis by blast
qed

lemmas task_listing_defs =
  get_all_tasks_def status_filter_def priority_filter_def employee_id_filter_def
  truthy_str_def truthy_id_def paginate_def sqlite_int_def page_of_def Let_def

text \<open>
  C9 at the request \<^verbatim>\<open>GET /api/tasks?employee_id=0\<close> on a store with three tasks. The
  filter 0 is supplied, and no task has employee 0, yet the guard \<^verbatim>\<open>if employee_id:\<close>
  skips the filter: the listing returns all three tasks, of employee 1, of employee 2
  and of nobody, where equality with the filter selects none.
\<close>

theorem get_all_tasks_employee_zero:
  "get_all_tasks 1 10 None None (Some 0) office_store
     = Inr ([task3, task2, task1], page_of 1 10 3 1)
   \<and> employee_id task1 = Some 1 \<and> employee_id task2 = Some 2 \<and> employee_id task3 = None
   \<and> filter (spec_task_matches None None (Some 0)) (tasks office_store) = []
   \<and> get_all_tasks 1 10 None None (Some 2) office_store = Inr ([task2], page_of 1 10 1 1)
   \<and> get_all_tasks 1 10 (Some ''pending'') None None office_store
        = Inr ([task3, task1], page_of 1 10 2 1)
   \<and> get_all_tasks 1 10 (Some ''pend'') None None office_store = Inr ([], page_of 1 10 0 0)
   \<and> get_all_tasks 1 10 (Some ''Pending'') None None office_store
        = Inr ([], page_of 1 10 0 0)"
proof -
  have r: "get_all_tasks 1 10 None None (Some 0) office_store
     = Inr ([task3, task2, task1], page_of 1 10 3 1)"
    by (simp add: task_listing_defs office_store_def task1_def task2_def task3_def)
  have e: "employee_id task1 = Some 1" "employee_id task2 = Some 2" "employee_id task3 = None"
    by (simp_all add: task1_def task2_def task3_def)
  have f: "filter (spec_task_matches None None (Some 0)) (tasks office_store) = []"
    by (simp add: spec_task_matches_def office_store_def e)
  have r2: "get_all_tasks 1 10 None None (Some 2) office_store = Inr ([task2], page_of 1 10 1 1)"
    by (simp add: task_listing_defs office_store_def task1_def task2_def task3_def)
  have r3: "get_all_tasks 1 10 (Some ''pending'') None None office_store
        = Inr ([task3, task1], page_of 1 10 2 1)"
    by (simp add: task_listing_defs office_store_def task1_def task2_def task3_def)
  have r4: "get_all_tasks 1 10 (Some ''pend'') None None office_store = Inr ([], page_of 1 10 0 0)"
    by (simp add: task_listing_defs office_store_def task1_def task2_def task3_def)
  have r5: "get_all_tasks 1 10 (Some ''Pending'') None None office_store
        = Inr ([], page_of 1 10 0 0)"
    by (simp add: task_listing_defs office_store_def task1_def task2_def task3_def)
  from r e f r2 r3 r4 r5 show ?thesis by blast
qed

section \<open>The operations keep the store's integrity\<close>

text \<open>
  The empty store satisfies the constraints and every mutating operation of the two
  services preserves them, so the stores the theorems assume are the stores the services
  can reach.
\<close>

lemma wf_empty_store: "wf_store empty_store"
  by (simp add: wf_store_def empty_store_def)

lemma create_employee_wf:
  assumes "wf_store s"
  shows "wf_store (snd (create_employee now data s))"
proof (cases "fst (create_employee now data s)")
  case (Inl err)
  then have "snd (create_employee now data s) = s"
    by (auto simp: create_employee_def Let_def split: option.splits if_splits)
  with assms show ?thesis by simp
next
  case (Inr e)
  then have s': "snd (create_employee now data s) = s\<lparr>employees := employees s @ [e]\<rparr>"
    and i: "e_id e = next_id (map e_id (employees s))"
    and u: "\<not> email_in_use (email e) (e_id e) s"
    by (auto simp: create_employee_def Let_def split: option.splits if_splits)
  from i have fresh: "e_id e \<notin> set (map e_id (employees s))"
    using next_id_fresh[of "map e_id (employees s)"] by simp
  with u have "email e \<notin> set (map email (employees s))"
    by (auto simp: email_in_use_def list_ex_iff image_iff)
  with fresh assms show ?thesis by (simp add: s' wf_store_def)
qed

lemma map_replace_ids:
  "k c = i \<Longrightarrow> map k (map (\<lambda>x. if k x = i then c else x) xs) = map k xs"
  by (induction xs) auto

lemma distinct_map_replace:
  assumes "distinct (map k xs)" and "distinct (map f xs)"
    and "\<forall>x\<in>set xs. k x \<noteq> i \<longrightarrow> f x \<noteq> f c"
  shows "distinct (map f (map (\<lambda>x. if k x = i then c else x) xs))"
  using assms
proof (induction xs)
  case Nil
  then show ?case by simp
next
  case (Cons y ys)
  then have ih: "distinct (map f (map (\<lambda>x. if k x = i then c else x) ys))" by simp
  show ?case
  proof (cases "k y = i")
    case True
    with Cons.prems(1) have "\<forall>x\<in>set ys. k x \<noteq> i" by (auto simp: image_iff)
    then have same: "map (\<lambda>x. if k x = i then c else x) ys = ys"
      by (induction ys) auto
    from \<open>\<forall>x\<in>set ys. k x \<noteq> i\<close> Cons.prems(3) have "f c \<notin> f ` set ys" by (auto simp: image_iff)
    with True same Cons.prems(2) show ?thesis by simp
  next
    case False
    let ?g = "\<lambda>x. if k x = i then c else x"
    from False Cons.prems(3) have ne: "f y \<noteq> f c" by simp
    have hd: "map f (map ?g (y # ys)) = f y # map f (map ?g ys)"
      using False by simp
    have nin: "f y \<notin> set (map f (map ?g ys))"
    proof
      assume "f y \<in> set (map f (map ?g ys))"
      then obtain x where x: "x \<in> set ys" "f y = f (?g x)" by auto
      show False
      proof (cases "k x = i")
        case True
        with x ne show False by simp
      next
        case False
        with x have "f y = f x" by simp
        with x(1) Cons.prems(2) show False by (auto simp: image_iff)
      qed
    qed
    from nin ih show ?thesis unfolding hd by (simp only: distinct.simps simp_thms)
  qed
qed

lemma update_employee_wf:
  assumes "wf_store s"
  shows "wf_store (snd (update_employee now emp_id data s))"
proof (cases "session_get_employee emp_id s")
  case None
  with assms show ?thesis by (simp add: update_employee_def)
next
  case (Some e)
  then have mem: "e \<in> set (employees s)" and id: "e_id e = emp_id"
    by (auto simp: session_get_employee_def dest: find_Some_holds)
  let ?n = "setattr_employee data e"
  let ?c = "?n\<lparr>e_updated_at := now\<rparr>"
  show ?thesis
  proof (cases "snd (update_employee now emp_id data s) = s")
    case True
    with assms show ?thesis by simp
  next
    case False
    with Some have s': "snd (update_employee now emp_id data s)
        = s\<lparr>employees := map (\<lambda>x. if e_id x = e_id e then ?c else x) (employees s)\<rparr>"
      and ok: "email ?n = email e \<or> \<not> email_in_use (email ?n) (e_id e) s"
      by (auto simp: update_employee_def commit_employee_def Let_def
          split: option.splits if_splits sum.splits)
    have idc: "e_id ?c = e_id e" by (simp add: setattr_employee_def)
    from assms have d: "distinct (map e_id (employees s))" "distinct (map email (employees s))"
      by (simp_all add: wf_store_def)
    have others: "\<forall>x\<in>set (employees s). e_id x \<noteq> e_id e \<longrightarrow> email x \<noteq> email ?c"
    proof (intro ballI impI)
      fix x assume x: "x \<in> set (employees s)" "e_id x \<noteq> e_id e"
      from ok show "email x \<noteq> email ?c"
      proof
        assume same: "email ?n = email e"
        from d(2) have "inj_on email (set (employees s))" by (simp add: distinct_map)
        with x mem have "email x \<noteq> email e" by (auto dest: inj_onD)
        with same show ?thesis by simp
      next
        assume "\<not> email_in_use (email ?n) (e_id e) s"
        with x show ?thesis by (auto simp: email_in_use_def list_ex_iff)
      qed
    qed
    from distinct_map_replace[OF d others]
    have "distinct (map email (map (\<lambda>x. if e_id x = e_id e then ?c else x) (employees s)))" .
    moreover from d(1) have "distinct (map e_id (map (\<lambda>x. if e_id x = e_id e then ?c else x) (employees s)))"
      by (simp only: map_replace_ids[of e_id ?c "e_id e", OF idc])
    ultimately show ?thesis using assms by (simp add: s' wf_store_def)
  qed
qed

lemma delete_employee_wf:
  assumes "wf_store s"
  shows "wf_store (snd (delete_employee emp_id s))"
  using assms
  by (auto simp: delete_employee_def wf_store_def Let_def distinct_map_filter
      split: option.splits)

lemma create_task_wf:
  assumes "wf_store s"
  shows "wf_store (snd (create_task now data s))"
proof (cases "fst (create_task now data s)")
  case (Inl err)
  then have "snd (create_task now data s) = s"
    by (auto simp: create_task_def Let_def split: option.splits if_splits)
  with assms show ?thesis by simp
next
  case (Inr t)
  then have s': "snd (create_task now data s) = s\<lparr>tasks := tasks s @ [t]\<rparr>"
    and i: "t_id t = next_id (map t_id (tasks s))"
    by (auto simp: create_task_def Let_def split: option.splits if_splits)
  from i have "t_id t \<notin> set (map t_id (tasks s))"
    using next_id_fresh[of "map t_id (tasks s)"] by simp
  with assms show ?thesis by (simp add: s' wf_store_def)
qed

lemma update_task_wf:
  assumes "wf_store s"
  shows "wf_store (snd (update_task now task_id data s))"
proof (cases "session_get_task task_id s")
  case None
  with assms show ?thesis by (simp add: update_task_def)
next
  case (Some t)
  let ?c = "(setattr_task data t)\<lparr>t_updated_at := now\<rparr>"
  have idc: "t_id ?c = t_id t" by (simp add: setattr_task_def)
  show ?thesis
  proof (cases "snd (update_task now task_id data s) = s")
    case True
    with assms show ?thesis by simp
  next
    case False
    with Some have s': "snd (update_task now task_id data s)
        = s\<lparr>tasks := map (\<lambda>x. if t_id x = t_id t then ?c else x) (tasks s)\<rparr>"
      by (auto simp: update_task_def commit_task_def Let_def
          split: option.splits if_splits sum.splits)
    from assms show ?thesis
      by (simp add: s' wf_store_def map_replace_ids[of t_id ?c "t_id t", OF idc] del: map_map)
  qed
qed

lemma delete_task_wf:
  assumes "wf_store s"
  shows "wf_store (snd (delete_task task_id s))"
  using assms
  by (auto simp: delete_task_def wf_store_def distinct_map_filter split: option.splits)

end
